theory Spec2Isabelle
  imports Main
begin

section \<open>JavaScript numbers and strings, as far as \<open>App.js\<close> uses them\<close>

text \<open>
  The reminder planner of \<open>scheduleReminders\<close> computes with the results of
  \<open>Number(...)\<close> on the pieces of a time string. Those are JavaScript Numbers:
  \<^item> \<open>Fin n\<close>: a finite integral number (doubles and their arithmetic are exact on
    integers up to \<open>2^53\<close> in magnitude, and the model is meant for these;
    \<open>-0\<close> is identified with \<open>0\<close>, both are falsy and both add as zero);
  \<^item> \<open>PInf\<close>, \<open>NInf\<close>: \<open>Infinity\<close> and \<open>-Infinity\<close>;
  \<^item> \<open>NaN\<close>.
  A value that may be \<open>undefined\<close> (a missing array element under destructuring) is a
  \<open>jsnum option\<close>, \<open>None\<close> standing for \<open>undefined\<close>.
\<close>

datatype jsnum = NaN | Fin int | PInf | NInf

type_synonym jsval = "jsnum option"

text \<open>Truthiness of a number: \<open>NaN\<close> and \<open>0\<close> are falsy.\<close>

fun truthy :: "jsnum \<Rightarrow> bool" where
  "truthy NaN = False"
| "truthy (Fin n) = (n \<noteq> 0)"
| "truthy PInf = True"
| "truthy NInf = True"

text \<open>\<open>v || d\<close> for a possibly undefined number \<open>v\<close> and a numeric default \<open>d\<close>.\<close>

definition num_or :: "jsval \<Rightarrow> jsnum \<Rightarrow> jsnum" where
  "num_or v d = (case v of None \<Rightarrow> d | Some x \<Rightarrow> if truthy x then x else d)"

text \<open>\<open>v || d\<close> for a possibly missing string: \<open>undefined\<close>, \<open>null\<close> and \<open>""\<close> are falsy.\<close>

definition str_or :: "string option \<Rightarrow> string \<Rightarrow> string" where
  "str_or v d = (case v of None \<Rightarrow> d | Some a \<Rightarrow> if a = [] then d else a)"

text \<open>IEEE addition and multiplication on the values above.\<close>

fun js_add :: "jsnum \<Rightarrow> jsnum \<Rightarrow> jsnum" where
  "js_add NaN y = NaN"
| "js_add x NaN = NaN"
| "js_add (Fin a) (Fin b) = Fin (a + b)"
| "js_add PInf NInf = NaN"
| "js_add NInf PInf = NaN"
| "js_add PInf y = PInf"
| "js_add NInf y = NInf"
| "js_add (Fin a) PInf = PInf"
| "js_add (Fin a) NInf = NInf"

fun js_sign :: "jsnum \<Rightarrow> int" where
  "js_sign NaN = 0"
| "js_sign (Fin a) = sgn a"
| "js_sign PInf = 1"
| "js_sign NInf = - 1"

fun js_mul :: "jsnum \<Rightarrow> jsnum \<Rightarrow> jsnum" where
  "js_mul NaN y = NaN"
| "js_mul x NaN = NaN"
| "js_mul (Fin a) (Fin b) = Fin (a * b)"
| "js_mul x y =
     (if js_sign x * js_sign y = 0 then NaN
      else if js_sign x * js_sign y > 0 then PInf else NInf)"

text \<open>\<open>x <= y\<close>: false as soon as one side is \<open>NaN\<close>.\<close>

fun js_le :: "jsnum \<Rightarrow> jsnum \<Rightarrow> bool" where
  "js_le NaN y = False"
| "js_le x NaN = False"
| "js_le (Fin a) (Fin b) = (a \<le> b)"
| "js_le NInf y = True"
| "js_le x PInf = True"
| "js_le PInf y = False"
| "js_le x NInf = False"

text \<open>
  \<open>x % d\<close> and \<open>Math.floor(x / d)\<close> for a positive integer constant \<open>d\<close> (the code
  uses \<open>24 * 60\<close> and \<open>60\<close>). JavaScript's remainder takes the sign of the dividend;
  an infinite or \<open>NaN\<close> dividend gives \<open>NaN\<close>.
\<close>

fun js_rem :: "jsnum \<Rightarrow> int \<Rightarrow> jsnum" where
  "js_rem (Fin a) d = Fin (if a < 0 then - ((- a) mod d) else a mod d)"
| "js_rem x d = NaN"

fun js_floor_div :: "jsnum \<Rightarrow> int \<Rightarrow> jsnum" where
  "js_floor_div (Fin a) d = Fin (a div d)"
| "js_floor_div x d = x"

text \<open>\<open>Math.floor\<close> of a value that is integral, infinite or \<open>NaN\<close> is the value.\<close>

definition js_floor :: "jsnum \<Rightarrow> jsnum" where
  "js_floor x = x"

subsection \<open>\<open>Number(string)\<close> and \<open>split(':')\<close>\<close>

text \<open>
  \<open>Number\<close> on a string: white space is trimmed, the empty string is \<open>0\<close>, then an
  optional sign followed by decimal digits or by \<open>Infinity\<close>; anything else is \<open>NaN\<close>.
  Scope: numerals with a decimal point or an exponent, the prefixed numerals
  (\<open>0x\<close>, \<open>0o\<close>, \<open>0b\<close>) and white space outside ASCII are not modelled: they are
  read as \<open>NaN\<close> here, while JavaScript reads a number; and an integer above
  \<open>2^53\<close> is kept exact here, while JavaScript rounds it to a double. The strings on
  which this function is \<open>Number\<close> are singled out below (\<open>modelled_time\<close>); a
  property that depends on how an arbitrary string is read is stated for them.
\<close>

definition is_space :: "char \<Rightarrow> bool" where
  "is_space c = (c \<in> set [CHR '' '', CHR 0x09, CHR 0x0A, CHR 0x0B, CHR 0x0C, CHR 0x0D])"

definition trim :: "string \<Rightarrow> string" where
  "trim s = rev (dropWhile is_space (rev (dropWhile is_space s)))"

definition digit_val :: "char \<Rightarrow> nat option" where
  "digit_val c =
     (let n = (of_char c :: nat) in if 48 \<le> n \<and> n \<le> 57 then Some (n - 48) else None)"

fun digits_val :: "nat \<Rightarrow> string \<Rightarrow> nat option" where
  "digits_val acc [] = Some acc"
| "digits_val acc (c # cs) =
     (case digit_val c of None \<Rightarrow> None | Some d \<Rightarrow> digits_val (10 * acc + d) cs)"

definition unsigned_lit :: "string \<Rightarrow> jsnum" where
  "unsigned_lit s =
     (if s = ''Infinity'' then PInf
      else if s = [] then NaN
      else (case digits_val 0 s of None \<Rightarrow> NaN | Some n \<Rightarrow> Fin (int n)))"

fun js_neg :: "jsnum \<Rightarrow> jsnum" where
  "js_neg NaN = NaN"
| "js_neg (Fin a) = Fin (- a)"
| "js_neg PInf = NInf"
| "js_neg NInf = PInf"

definition Number_js :: "string \<Rightarrow> jsnum" where
  "Number_js s =
     (case trim s of
        [] \<Rightarrow> Fin 0
      | c # cs \<Rightarrow>
          if c = CHR ''-'' then js_neg (unsigned_lit cs)
          else if c = CHR ''+'' then unsigned_lit cs
          else unsigned_lit (c # cs))"

text \<open>\<open>s.split(':')\<close>: the pieces between the colons; never the empty array.\<close>

fun split_colon :: "string \<Rightarrow> string list" where
  "split_colon [] = [[]]"
| "split_colon (c # cs) =
     (if c = CHR '':'' then [] # split_colon cs
      else (case split_colon cs of [] \<Rightarrow> [[c]] | p # ps \<Rightarrow> (c # p) # ps))"

text \<open>
  \<open>const [h, m] = s.split(':').map(Number)\<close>: the first two elements of the mapped
  array, \<open>undefined\<close> where the array is too short.
\<close>

definition nth_opt :: "'a list \<Rightarrow> nat \<Rightarrow> 'a option" where
  "nth_opt xs i = (if i < length xs then Some (xs ! i) else None)"

definition split_hm :: "string \<Rightarrow> jsval \<times> jsval" where
  "split_hm s = (let parts = map Number_js (split_colon s) in (nth_opt parts 0, nth_opt parts 1))"

section \<open>Data model\<close>

text \<open>
  The user profile and the settings object both carry \<open>wakeTime\<close> and \<open>bedTime\<close>
  (strings typed into free text fields; absent when \<open>undefined\<close> or \<open>null\<close>). The
  fields that the functions below never read (name, weight, age, createdAt) are left out.
  \<open>reminderIntervalMins\<close> is an integer or absent; settings that are no integers are
  outside the model.
\<close>

record time_prefs =
  wakeTime :: "string option"
  bedTime :: "string option"

record user = time_prefs +
  goal :: int

record settings = time_prefs +
  darkMode :: bool
  remindersEnabled :: bool
  reminderIntervalMins :: "int option"

text \<open>A planned slot \<open>{ hour, minute }\<close>, the trigger of one daily notification.\<close>

record slot =
  hour :: jsval
  minute :: jsval

section \<open>The planning part of \<open>scheduleReminders\<close> (lines 113 to 128)\<close>

text \<open>
  The strings that are split: \<open>user?.wakeTime || settings?.wakeTime || '07:00'\<close> and
  its counterpart for the bed time.
\<close>

definition wakeTime_used :: "user \<Rightarrow> settings \<Rightarrow> string" where
  "wakeTime_used u s = str_or (wakeTime u) (str_or (wakeTime s) ''07:00'')"

definition bedTime_used :: "user \<Rightarrow> settings \<Rightarrow> string" where
  "bedTime_used u s = str_or (bedTime u) (str_or (bedTime s) ''23:00'')"

text \<open>\<open>[wakeH, wakeM]\<close> and \<open>[bedH, bedM]\<close>.\<close>

definition wakeHM :: "user \<Rightarrow> settings \<Rightarrow> jsval \<times> jsval" where
  "wakeHM u s = split_hm (wakeTime_used u s)"

definition bedHM :: "user \<Rightarrow> settings \<Rightarrow> jsval \<times> jsval" where
  "bedHM u s = split_hm (bedTime_used u s)"

text \<open>\<open>Math.max(15, settings.reminderIntervalMins || 120)\<close>, on an integer setting.\<close>

definition interval :: "settings \<Rightarrow> int" where
  "interval s =
     max 15 (case reminderIntervalMins s of None \<Rightarrow> 120 | Some n \<Rightarrow> if n = 0 then 120 else n)"

text \<open>\<open>(h || dflt) * 60 + (m || 0)\<close> for a pair \<open>[h, m]\<close>.\<close>

definition hm_minutes :: "jsval \<times> jsval \<Rightarrow> jsnum \<Rightarrow> jsnum" where
  "hm_minutes p dflt = js_add (js_mul (num_or (fst p) dflt) (Fin 60)) (num_or (snd p) (Fin 0))"

definition wakeMinutes :: "user \<Rightarrow> settings \<Rightarrow> jsnum" where
  "wakeMinutes u s = hm_minutes (wakeHM u s) (Fin 7)"

text \<open>\<open>bedMinutes\<close> as first computed, and after \<open>if (bedMinutes <= wakeMinutes) bedMinutes += 24 * 60\<close>.\<close>

definition bedMinutes_raw :: "user \<Rightarrow> settings \<Rightarrow> jsnum" where
  "bedMinutes_raw u s = hm_minutes (bedHM u s) (Fin 23)"

definition bedMinutes :: "user \<Rightarrow> settings \<Rightarrow> jsnum" where
  "bedMinutes u s =
     (if js_le (bedMinutes_raw u s) (wakeMinutes u s)
      then js_add (bedMinutes_raw u s) (Fin (24 * 60))
      else bedMinutes_raw u s)"

text \<open>The body of the \<open>for\<close> loop: the slot pushed for the step value \<open>t\<close>.\<close>

definition slot_at :: "jsnum \<Rightarrow> slot" where
  "slot_at t =
     (let minutesOfDay = js_rem t (24 * 60)
      in \<lparr>hour = Some (js_floor_div minutesOfDay 60),
          minute = Some (js_floor (js_rem minutesOfDay 60))\<rparr>)"

text \<open>
  \<open>for (let t = wakeMinutes; t <= bedMinutes; t += interval) times.push(...)\<close>.
  The loop need not end (an infinite bound is never passed), so it is a partial
  function: \<open>None\<close> is "does not return".
\<close>

partial_function (option) walk :: "jsnum \<Rightarrow> jsnum \<Rightarrow> int \<Rightarrow> slot list \<Rightarrow> slot list option" where
  "walk t bed iv acc =
     (if js_le t bed then walk (js_add t (Fin iv)) bed iv (acc @ [slot_at t]) else Some acc)"

declare walk.simps [code]

text \<open>
  The array \<open>times\<close> after line 128, where an empty walk falls back to the single
  slot \<open>{ hour: wakeH, minute: wakeM }\<close>.
\<close>

definition times_arr :: "user \<Rightarrow> settings \<Rightarrow> slot list option" where
  "times_arr u s =
     (case walk (wakeMinutes u s) (bedMinutes u s) (interval s) [] of
        None \<Rightarrow> None
      | Some ts \<Rightarrow>
          Some (if ts = [] then [\<lparr>hour = fst (wakeHM u s), minute = snd (wakeHM u s)\<rparr>] else ts))"

section \<open>The collaborators: key-value storage and the notification platform\<close>

text \<open>
  \<open>AsyncStorage\<close>, \<open>Notifications\<close> and \<open>Constants\<close> are libraries outside the
  repository. The code is modelled over any implementation of them: a record of
  operations on a world \<open>'w\<close>, each returning either a thrown value (\<open>Inl\<close>) or its
  result (\<open>Inr\<close>) together with the world after the call. Awaited calls run one after
  the other, so the world is threaded through them in program order.
\<close>

datatype exn = StorageError | NotificationError

type_synonym notif_id = nat

text \<open>
  What \<open>getItem\<close> can hand to \<open>JSON.parse\<close>: the text of an array of identifiers,
  the text of some other JSON value, or text that \<open>JSON.parse\<close> rejects. \<open>None\<close> is
  \<open>null\<close> (no item), which like the empty string is falsy.
\<close>

datatype json = JIds "notif_id list" | JOther | JInvalid

datatype perm_status = Granted | Denied | Undetermined

record 'w platform =
  getItem :: "string \<Rightarrow> 'w \<Rightarrow> (exn + json option) \<times> 'w"
  setItem :: "string \<Rightarrow> json \<Rightarrow> 'w \<Rightarrow> (exn + unit) \<times> 'w"
  cancelScheduledNotificationAsync :: "notif_id \<Rightarrow> 'w \<Rightarrow> (exn + unit) \<times> 'w"
  isDevice :: "'w \<Rightarrow> bool"
  getPermissionsAsync :: "'w \<Rightarrow> (exn + perm_status) \<times> 'w"
  requestPermissionsAsync :: "'w \<Rightarrow> (exn + perm_status) \<times> 'w"
  scheduleNotificationAsync :: "slot \<Rightarrow> 'w \<Rightarrow> (exn + notif_id) \<times> 'w"

definition NOTIF_IDS :: string where
  "NOTIF_IDS = ''HM_notif_ids_v2''"

subsection \<open>\<open>loadJson\<close> and \<open>saveJson\<close>\<close>

text \<open>
  \<open>loadJson\<close>: the parsed item, or the fallback when there is no item, when the text
  does not parse or when \<open>getItem\<close> throws. \<open>saveJson\<close>: a failed write is logged
  and swallowed.
\<close>

definition loadJson :: "'w platform \<Rightarrow> string \<Rightarrow> json \<Rightarrow> 'w \<Rightarrow> json \<times> 'w" where
  "loadJson P key fallback w =
     (case getItem P key w of
        (Inl e, w1) \<Rightarrow> (fallback, w1)
      | (Inr None, w1) \<Rightarrow> (fallback, w1)
      | (Inr (Some JInvalid), w1) \<Rightarrow> (fallback, w1)
      | (Inr (Some j), w1) \<Rightarrow> (j, w1))"

definition saveJson :: "'w platform \<Rightarrow> string \<Rightarrow> json \<Rightarrow> 'w \<Rightarrow> 'w" where
  "saveJson P key val w = snd (setItem P key val w)"

subsection \<open>\<open>registerForPushNotificationsAsync\<close>\<close>

definition registerForPushNotificationsAsync :: "'w platform \<Rightarrow> 'w \<Rightarrow> (exn + bool) \<times> 'w" where
  "registerForPushNotificationsAsync P w =
     (if \<not> isDevice P w then (Inr False, w)
      else (case getPermissionsAsync P w of
              (Inl e, w1) \<Rightarrow> (Inl e, w1)
            | (Inr existingStatus, w1) \<Rightarrow>
                if existingStatus \<noteq> Granted
                then (case requestPermissionsAsync P w1 of
                        (Inl e, w2) \<Rightarrow> (Inl e, w2)
                      | (Inr status, w2) \<Rightarrow> (Inr (status = Granted), w2))
                else (Inr True, w1)))"

subsection \<open>\<open>cancelScheduledNotificationsAndClearStorage\<close>\<close>

text \<open>
  \<open>Promise.all(ids.map(id => cancel(id)))\<close>: every cancellation is issued, in the
  order of the list; the awaited promise rejects when one of them rejects. The
  cancellations that are still pending at that moment are not withdrawn: they are
  taken to have completed before the next call on the platform.
\<close>

fun cancel_each :: "'w platform \<Rightarrow> notif_id list \<Rightarrow> 'w \<Rightarrow> exn option \<times> 'w" where
  "cancel_each P [] w = (None, w)"
| "cancel_each P (i # ids) w =
     (case cancelScheduledNotificationAsync P i w of
        (r, w1) \<Rightarrow>
          (case cancel_each P ids w1 of
             (r', w2) \<Rightarrow> ((case r of Inl e \<Rightarrow> Some e | Inr u \<Rightarrow> r'), w2)))"

text \<open>The \<open>try\<close> block, and the function with its \<open>catch\<close> (which only logs).\<close>

definition cancel_try :: "'w platform \<Rightarrow> 'w \<Rightarrow> (exn + unit) \<times> 'w" where
  "cancel_try P w =
     (case loadJson P NOTIF_IDS (JIds []) w of
        (JIds ids, w1) \<Rightarrow>
          (case cancel_each P ids w1 of
             (Some e, w2) \<Rightarrow> (Inl e, w2)
           | (None, w2) \<Rightarrow> (Inr (), saveJson P NOTIF_IDS (JIds []) w2))
      | (other, w1) \<Rightarrow> (Inr (), saveJson P NOTIF_IDS (JIds []) w1))"

definition cancelScheduledNotificationsAndClearStorage :: "'w platform \<Rightarrow> 'w \<Rightarrow> 'w" where
  "cancelScheduledNotificationsAndClearStorage P w = snd (cancel_try P w)"

subsection \<open>\<open>scheduleReminders\<close>\<close>

text \<open>
  \<open>for (const tm of times) { const id = await schedule(...); createdIds.push(id); }\<close>:
  the first rejected registration leaves the loop with the exception.
\<close>

fun register_all :: "'w platform \<Rightarrow> slot list \<Rightarrow> notif_id list \<Rightarrow> 'w \<Rightarrow> (exn + notif_id list) \<times> 'w" where
  "register_all P [] createdIds w = (Inr createdIds, w)"
| "register_all P (tm # tms) createdIds w =
     (case scheduleNotificationAsync P tm w of
        (Inl e, w1) \<Rightarrow> (Inl e, w1)
      | (Inr i, w1) \<Rightarrow> register_all P tms (createdIds @ [i]) w1)"

text \<open>
  The \<open>try\<close> block of \<open>scheduleReminders\<close>. \<open>None\<close>: the planning loop does not
  return. \<open>Inl e\<close>: the block is left by the exception \<open>e\<close>.
\<close>

definition scheduleReminders_try ::
  "'w platform \<Rightarrow> user option \<Rightarrow> settings option \<Rightarrow> 'w \<Rightarrow> ((exn + notif_id list) \<times> 'w) option" where
  "scheduleReminders_try P usr sett w =
     (let w1 = cancelScheduledNotificationsAndClearStorage P w in
      case usr of
        None \<Rightarrow> Some (Inr [], w1)
      | Some u \<Rightarrow>
          (case sett of
             None \<Rightarrow> Some (Inr [], w1)
           | Some s \<Rightarrow>
               if \<not> remindersEnabled s then Some (Inr [], w1)
               else
                 (case times_arr u s of
                    None \<Rightarrow> None
                  | Some ts \<Rightarrow>
                      (case registerForPushNotificationsAsync P w1 of
                         (Inl e, w2) \<Rightarrow> Some (Inl e, w2)
                       | (Inr ok, w2) \<Rightarrow>
                           if \<not> ok then Some (Inr [], w2)
                           else
                             (case register_all P ts [] w2 of
                                (Inl e, w3) \<Rightarrow> Some (Inl e, w3)
                              | (Inr createdIds, w3) \<Rightarrow>
                                  Some (Inr createdIds,
                                        saveJson P NOTIF_IDS (JIds createdIds) w3))))))"

text \<open>The function: \<open>catch (e) { console.warn(...); return []; }\<close> around the block.\<close>

definition scheduleReminders ::
  "'w platform \<Rightarrow> user option \<Rightarrow> settings option \<Rightarrow> 'w \<Rightarrow> ((exn + notif_id list) \<times> 'w) option" where
  "scheduleReminders P usr sett w =
     (case scheduleReminders_try P usr sett w of
        None \<Rightarrow> None
      | Some (Inl e, w') \<Rightarrow> Some (Inr [], w')
      | Some (Inr ids, w') \<Rightarrow> Some (Inr ids, w'))"

subsection \<open>A reference device\<close>

text \<open>
  A concrete implementation of the collaborators, used where a claim speaks about
  what is stored and what is registered: the store is a map from keys to items, the
  platform keeps the table of registered triggers and hands out consecutive
  identifiers. Its faults are switched by a \<open>faults\<close> record: storage reads or writes
  that throw, identifiers whose cancellation is rejected, a permission query that
  throws, and a number of registered triggers from which on the platform rejects
  further registrations.
\<close>

record world =
  store :: "string \<Rightarrow> json option"
  scheduled :: "(notif_id \<times> slot) list"
  next_id :: nat
  physical :: bool
  permission :: perm_status
  prompt_reply :: perm_status

record faults =
  read_fails :: bool
  write_fails :: bool
  cancel_fails :: "notif_id \<Rightarrow> bool"
  permission_fails :: bool
  schedule_limit :: "nat option"

definition device :: "faults \<Rightarrow> world platform" where
  "device f =
     \<lparr>getItem = (\<lambda>k w. if read_fails f then (Inl StorageError, w) else (Inr (store w k), w)),
      setItem = (\<lambda>k v w. if write_fails f then (Inl StorageError, w)
                          else (Inr (), w\<lparr>store := (store w)(k := Some v)\<rparr>)),
      cancelScheduledNotificationAsync =
        (\<lambda>i w. if cancel_fails f i then (Inl NotificationError, w)
                else (Inr (), w\<lparr>scheduled := filter (\<lambda>p. fst p \<noteq> i) (scheduled w)\<rparr>)),
      isDevice = physical,
      getPermissionsAsync =
        (\<lambda>w. if permission_fails f then (Inl NotificationError, w) else (Inr (permission w), w)),
      requestPermissionsAsync = (\<lambda>w. (Inr (prompt_reply w), w\<lparr>permission := prompt_reply w\<rparr>)),
      scheduleNotificationAsync =
        (\<lambda>tm w. if (case schedule_limit f of None \<Rightarrow> False | Some n \<Rightarrow> n \<le> length (scheduled w))
                 then (Inl NotificationError, w)
                 else (Inr (next_id w),
                       w\<lparr>scheduled := scheduled w @ [(next_id w, tm)], next_id := Suc (next_id w)\<rparr>))\<rparr>"

text \<open>The identifier list persisted under the key, and the identifiers registered.\<close>

definition persisted :: "world \<Rightarrow> notif_id list" where
  "persisted w = (case store w NOTIF_IDS of Some (JIds ids) \<Rightarrow> ids | _ \<Rightarrow> [])"

definition registered :: "world \<Rightarrow> notif_id list" where
  "registered w = map fst (scheduled w)"


section \<open>The intake ledger: \<open>addIntake\<close> and \<open>resetToday\<close>\<close>

text \<open>
  An intake record \<open>{ date, intake }\<close>; the log is the array held in the provider's
  state. \<open>today\<close> stands for \<open>formatDate()\<close>, the current date as \<open>YYYY-MM-DD\<close>. Each
  function returns the log after its \<open>setIntakeLog\<close> (the log unchanged where it
  returns without calling it). The functions are closures over the \<open>intakeLog\<close> of the
  render that created them: the argument \<open>intakeLog\<close> is the log of that render, and
  a call composed on the result of another stands for a call made after the provider
  has rendered again with the log the other has set. Intakes and amounts are
  integers; the sum is exact where the code's sum of doubles is, up to \<open>2^53\<close> in
  magnitude, and the properties below state this bound.
\<close>

record intake_record =
  date :: string
  intake :: int

text \<open>\<open>findIndex\<close>: the first index whose element satisfies the test, if any.\<close>

fun findIndex :: "('a \<Rightarrow> bool) \<Rightarrow> 'a list \<Rightarrow> nat option" where
  "findIndex p [] = None"
| "findIndex p (x # xs) =
     (if p x then Some 0 else (case findIndex p xs of None \<Rightarrow> None | Some i \<Rightarrow> Some (Suc i)))"

definition addIntake :: "user option \<Rightarrow> string \<Rightarrow> int \<Rightarrow> intake_record list \<Rightarrow> intake_record list" where
  "addIntake usr today amount intakeLog =
     (case usr of
        None \<Rightarrow> intakeLog
      | Some u \<Rightarrow>
          (case findIndex (\<lambda>r. date r = today) intakeLog of
             Some idx \<Rightarrow> intakeLog[idx := (intakeLog ! idx)\<lparr>intake := intake (intakeLog ! idx) + amount\<rparr>]
           | None \<Rightarrow> intakeLog @ [\<lparr>date = today, intake = amount\<rparr>]))"

definition resetToday :: "string \<Rightarrow> intake_record list \<Rightarrow> intake_record list" where
  "resetToday today intakeLog = filter (\<lambda>r. date r \<noteq> today) intakeLog"

section \<open>Notions used to state the properties\<close>

text \<open>The records of a log for one date, and the intake already logged for it.\<close>

definition records_for :: "string \<Rightarrow> intake_record list \<Rightarrow> intake_record list" where
  "records_for d intakeLog = filter (\<lambda>r. date r = d) intakeLog"

definition prior_intake :: "string \<Rightarrow> intake_record list \<Rightarrow> int" where
  "prior_intake d intakeLog = (case records_for d intakeLog of [] \<Rightarrow> 0 | r # rs \<Rightarrow> intake r)"

text \<open>A profile and settings as the welcome screen and the provider create them.\<close>

definition profile :: "string \<Rightarrow> string \<Rightarrow> user" where
  "profile wake bed = \<lparr>wakeTime = Some wake, bedTime = Some bed, goal = 2000\<rparr>"

definition default_settings :: settings where
  "default_settings =
     \<lparr>wakeTime = Some ''07:00'', bedTime = Some ''23:00'', darkMode = False,
      remindersEnabled = True, reminderIntervalMins = Some 120\<rparr>"

text \<open>The slot \<open>HH:MM\<close> with both fields numbers.\<close>

definition hm :: "int \<Rightarrow> int \<Rightarrow> slot" where
  "hm h m = \<lparr>hour = Some (Fin h), minute = Some (Fin m)\<rparr>"

text \<open>The slot of a minute of the day, \<open>0 \<le> m < 1440\<close>.\<close>

definition minute_slot :: "int \<Rightarrow> slot" where
  "minute_slot m = hm (m div 60) (m mod 60)"

text \<open>The time \<open>HH:MM\<close> as the text of two digits, a colon and two digits.\<close>

definition digit_char :: "nat \<Rightarrow> char" where
  "digit_char d = char_of (48 + d)"

definition clock :: "nat \<Rightarrow> nat \<Rightarrow> string" where
  "clock h m =
     [digit_char (h div 10), digit_char (h mod 10), CHR '':'',
      digit_char (m div 10), digit_char (m mod 10)]"

text \<open>The bed time in minutes, moved to the next day when it is not after the wake time.\<close>

definition bedMinutesNormalized :: "int \<Rightarrow> int \<Rightarrow> int" where
  "bedMinutesNormalized wm bm = (if bm \<le> wm then bm + 1440 else bm)"

text \<open>
  The interval as the specification words it, \<open>max(15, reminderIntervalMins ?? 120)\<close>:
  the default 120 only for \<open>null\<close> and \<open>undefined\<close>.
\<close>

definition interval_spec :: "settings \<Rightarrow> int" where
  "interval_spec s = max 15 (case reminderIntervalMins s of None \<Rightarrow> 120 | Some n \<Rightarrow> n)"



text \<open>
  The time strings on which \<open>Number_js\<close> is \<open>Number\<close>, and on which the planner's
  arithmetic is exact in doubles. A component is modelled when it is free of decimal
  digits and of characters outside ASCII (JavaScript then reads \<open>NaN\<close>, \<open>0\<close> for
  white space only, or an infinity), or when, trimmed, it is an optionally signed run
  of at most 12 decimal digits. Only the first two components of a time string are
  used.
\<close>

definition is_digit :: "char \<Rightarrow> bool" where
  "is_digit c = (digit_val c \<noteq> None)"

definition is_ascii :: "char \<Rightarrow> bool" where
  "is_ascii c = ((of_char c :: nat) < 128)"

definition plain_integer :: "string \<Rightarrow> bool" where
  "plain_integer t = (t \<noteq> [] \<and> length t \<le> 12 \<and> list_all is_digit t)"

definition modelled_piece :: "string \<Rightarrow> bool" where
  "modelled_piece p =
     ((list_all is_ascii p \<and> \<not> list_ex is_digit p)
      \<or> (case trim p of
            [] \<Rightarrow> False
          | c # cs \<Rightarrow> if c = CHR ''-'' \<or> c = CHR ''+'' then plain_integer cs
                      else plain_integer (c # cs)))"

definition modelled_time :: "string \<Rightarrow> bool" where
  "modelled_time s = list_all modelled_piece (take 2 (split_colon s))"

text \<open>
  The plan as the specification words it, for a wake and a bed time in minutes since
  midnight and an interval: the bed time is normalized, the walk has
  \<open>floor((bedMinutesNormalized - wakeMinutes) / interval) + 1\<close> steps from the wake time,
  and each step value is reduced modulo 1440 into an hour and minute pair.
\<close>

definition plan_spec :: "int \<Rightarrow> int \<Rightarrow> int \<Rightarrow> slot list" where
  "plan_spec wm bm iv =
     map (\<lambda>k. minute_slot ((wm + int k * iv) mod 1440))
       [0..<nat ((bedMinutesNormalized wm bm - wm) div iv + 1)]"

text \<open>
  Settings of the reference device: no fault at all, and a platform that rejects
  registrations once \<open>n\<close> triggers are registered. Two of its states: a fresh
  installation, and one with two reminders registered and persisted.
\<close>

definition no_faults :: faults where
  "no_faults =
     \<lparr>read_fails = False, write_fails = False, cancel_fails = (\<lambda>i. False),
      permission_fails = False, schedule_limit = None\<rparr>"

definition limited :: "nat \<Rightarrow> faults" where
  "limited n = no_faults\<lparr>schedule_limit := Some n\<rparr>"

definition fresh_world :: world where
  "fresh_world =
     \<lparr>store = (\<lambda>k. None), scheduled = [], next_id = 0, physical = True,
      permission = Undetermined, prompt_reply = Granted\<rparr>"





text \<open>
  What an invocation leaves behind: the returned value, the identifiers persisted and
  the identifiers registered after it; and whether the persisted list mirrors the
  registered triggers after it.
\<close>

definition outcome ::
  "((exn + notif_id list) \<times> world) option \<Rightarrow> ((exn + notif_id list) \<times> notif_id list \<times> notif_id list) option" where
  "outcome R = map_option (\<lambda>(r, w). (r, persisted w, registered w)) R"


section \<open>Properties of the reminder planner\<close>

lemma slot_at_nonneg: "0 \<le> x \<Longrightarrow> slot_at (Fin x) = minute_slot (x mod 1440)"
  by (simp add: slot_at_def minute_slot_def hm_def js_floor_def)

lemma walk_fin:
  assumes "0 < iv"
  shows "walk (Fin t) (Fin b) iv acc =
           Some (acc @ map (\<lambda>k. slot_at (Fin (t + int k * iv))) [0..<nat ((b - t) div iv + 1)])"
proof (induction "nat (b - t + 1)" arbitrary: t acc rule: less_induct)
  case less
  show ?case
  proof (cases "t \<le> b")
    case False
    then have "b - t < 0" by simp
    with assms have "(b - t) div iv < 0" by (simp add: div_neg_pos_less0)
    then have "nat ((b - t) div iv + 1) = 0" by simp
    with False show ?thesis by (subst walk.simps) simp
  next
    case True
    with assms have m: "nat (b - (t + iv) + 1) < nat (b - t + 1)" by simp
    have "(b - (t + iv) + iv) div iv = (b - (t + iv)) div iv + 1"
      using assms by (simp only: div_add_self2)
    then have d: "(b - (t + iv)) div iv = (b - t) div iv - 1"
      by (simp add: algebra_simps)
    have "0 \<le> b - t" using True by simp
    with assms have "0 \<le> (b - t) div iv" by (simp add: pos_imp_zdiv_nonneg_iff)
    with d have n: "nat ((b - t) div iv + 1) = Suc (nat ((b - (t + iv)) div iv + 1))" by simp
    have "walk (Fin t) (Fin b) iv acc = walk (Fin (t + iv)) (Fin b) iv (acc @ [slot_at (Fin t)])"
      using True by (subst walk.simps) simp
    also have "\<dots> = Some ((acc @ [slot_at (Fin t)]) @
        map (\<lambda>k. slot_at (Fin (t + iv + int k * iv))) [0..<nat ((b - (t + iv)) div iv + 1)])"
      by (rule less.hyps [OF m])
    also have "\<dots> = Some (acc @ map (\<lambda>k. slot_at (Fin (t + int k * iv))) [0..<nat ((b - t) div iv + 1)])"
      unfolding n map_upt_Suc by (simp add: algebra_simps)
    finally show ?thesis .
  qed
qed

lemma walk_unbounded:
  assumes "walk t bed iv acc = Some r"
  shows "bed = PInf \<longrightarrow> t = NaN"
proof (rule walk.raw_induct [where P = "\<lambda>t bed iv acc r. bed = PInf \<longrightarrow> t = NaN", OF _ assms])
  fix walk' t bed iv acc r
  assume IH: "\<And>t bed iv acc r. walk' t bed iv acc = Some r \<Longrightarrow> bed = PInf \<longrightarrow> t = NaN"
    and step: "(if js_le t bed then walk' (js_add t (Fin iv)) bed iv (acc @ [slot_at t]) else Some acc) = Some r"
  show "bed = PInf \<longrightarrow> t = NaN"
  proof (cases "js_le t bed")
    case True
    with step IH have "bed = PInf \<longrightarrow> js_add t (Fin iv) = NaN" by simp
    then show ?thesis by (cases t) auto
  next
    case False
    then show ?thesis by (cases t) auto
  qed
qed

lemma interval_ge: "15 \<le> interval s"
  by (simp add: interval_def)

text \<open>
  Times of the day written \<open>HH:MM\<close>: the minutes the code computes for them. They lie
  in \<open>0 \<le> m < 1440\<close>. (An hour \<open>00\<close> is falsy and read as the default hour.)
\<close>

lemma of_char_digit: "d < 10 \<Longrightarrow> (of_char (digit_char d) :: nat) = 48 + d"
  by (simp add: digit_char_def)

lemma digit_char_val: "d < 10 \<Longrightarrow> digit_val (digit_char d) = Some d"
  by (simp add: digit_val_def of_char_digit)

lemma digit_char_neq: "d < 10 \<Longrightarrow> (of_char c :: nat) < 48 \<or> 57 < (of_char c :: nat) \<Longrightarrow> digit_char d \<noteq> c"
  using of_char_digit [of d] by auto

lemma digit_char_not_space: "d < 10 \<Longrightarrow> \<not> is_space (digit_char d)"
  by (auto simp: is_space_def dest!: digit_char_neq [THEN notE, rotated -1])

lemma digit_char_plain:
  "d < 10 \<Longrightarrow> digit_char d \<noteq> CHR '':'' \<and> digit_char d \<noteq> CHR ''-'' \<and> digit_char d \<noteq> CHR ''+''
     \<and> digit_char d \<noteq> CHR ''I''"
  by (auto dest!: digit_char_neq [THEN notE, rotated -1])

lemma two_digits_Number:
  assumes "a < 10" and "b < 10"
  shows "Number_js [digit_char a, digit_char b] = Fin (int (10 * a + b))"
proof -
  have t: "trim [digit_char a, digit_char b] = [digit_char a, digit_char b]"
    using assms by (simp add: trim_def digit_char_not_space)
  have d: "digits_val 0 [digit_char a, digit_char b] = Some (10 * a + b)"
    using assms by (simp add: digit_char_val)
  have u: "unsigned_lit [digit_char a, digit_char b] = Fin (int (10 * a + b))"
    by (simp add: unsigned_lit_def d del: digits_val.simps)
  show ?thesis
    using digit_char_plain [OF assms(1)]
    by (simp add: Number_js_def t u del: of_nat_add of_nat_mult)
qed

lemma split_colon_clock:
  assumes "h < 100" and "m < 100"
  shows "split_colon (clock h m) =
           [[digit_char (h div 10), digit_char (h mod 10)], [digit_char (m div 10), digit_char (m mod 10)]]"
proof -
  have "h div 10 < 10" and "m div 10 < 10" using assms by simp_all
  moreover have "h mod 10 < 10" and "m mod 10 < 10" by simp_all
  ultimately show ?thesis
    by (simp add: clock_def digit_char_plain)
qed

lemma split_hm_clock:
  assumes "h < 100" and "m < 100"
  shows "split_hm (clock h m) = (Some (Fin (int h)), Some (Fin (int m)))"
proof -
  have "h div 10 < 10" and "m div 10 < 10" using assms by simp_all
  moreover have "h mod 10 < 10" and "m mod 10 < 10" by simp_all
  ultimately show ?thesis
    by (simp add: split_hm_def split_colon_clock [OF assms] two_digits_Number nth_opt_def
        del: of_nat_add of_nat_mult)
qed

lemma hm_minutes_clock:
  assumes "h < 24" and "m < 60" and "0 < d"
  shows "hm_minutes (split_hm (clock h m)) (Fin d) = Fin ((if h = 0 then d else int h) * 60 + int m)"
  using assms by (simp add: split_hm_clock hm_minutes_def num_or_def)

lemma wakeMinutes_clock:
  assumes "wakeTime_used u s = clock h m" and "h < 24" and "m < 60"
  shows "wakeMinutes u s = Fin ((if h = 0 then 7 else int h) * 60 + int m)"
  using assms by (simp add: wakeMinutes_def wakeHM_def hm_minutes_clock)

lemma bedMinutes_raw_clock:
  assumes "bedTime_used u s = clock h m" and "h < 24" and "m < 60"
  shows "bedMinutes_raw u s = Fin ((if h = 0 then 23 else int h) * 60 + int m)"
  using assms by (simp add: bedMinutes_raw_def bedHM_def hm_minutes_clock)

lemma clock_minutes_range:
  assumes "h < 24" and "m < 60" and "0 < d" and "d < 24"
  shows "0 \<le> (if h = 0 then d else int h) * 60 + int m"
    and "(if h = 0 then d else int h) * 60 + int m < 1440"
  using assms by auto

text \<open>Times written \<open>HH:MM\<close> are modelled time strings; some that are, some that are not.\<close>

lemma digit_char_is_digit: "d < 10 \<Longrightarrow> is_digit (digit_char d)"
  by (simp add: is_digit_def digit_char_val)

lemma modelled_two_digits:
  assumes "a < 10" and "b < 10"
  shows "modelled_piece [digit_char a, digit_char b]"
proof -
  have t: "trim [digit_char a, digit_char b] = [digit_char a, digit_char b]"
    using assms by (simp add: trim_def digit_char_not_space)
  show ?thesis
    using assms digit_char_plain [OF assms(1)]
    by (simp add: modelled_piece_def t plain_integer_def digit_char_is_digit)
qed

lemma modelled_time_clock:
  assumes "h < 100" and "m < 100"
  shows "modelled_time (clock h m)"
proof -
  have "h div 10 < 10" and "m div 10 < 10" using assms by simp_all
  moreover have "h mod 10 < 10" and "m mod 10 < 10" by simp_all
  ultimately show ?thesis
    by (simp add: modelled_time_def split_colon_clock [OF assms] modelled_two_digits)
qed

lemma modelled_time_examples:
  "modelled_time ''07:00'' \<and> modelled_time ''xx:30'' \<and> modelled_time ''late''
   \<and> modelled_time ''Infinity:00'' \<and> modelled_time '' -12 : +5 ''
   \<and> \<not> modelled_time ''xx:1e1'' \<and> \<not> modelled_time ''0x10:30'' \<and> \<not> modelled_time ''7.5:00''
   \<and> \<not> modelled_time ''1234567890123:00''"
  by code_simp

text \<open>
  The plan the code makes, from the minutes it computes and from times written
  \<open>HH:MM\<close>. With both hours from 01 to 23 it is the plan of the specification for
  these times.
\<close>

lemma times_arr_of_minutes:
  assumes "wakeMinutes u s = Fin wm" and "bedMinutes_raw u s = Fin bm"
    and "0 \<le> wm" and "wm < 1440" and "0 \<le> bm" and "bm < 1440"
  shows "times_arr u s = Some (plan_spec wm bm (interval s))"
    and "plan_spec wm bm (interval s) \<noteq> []"
proof -
  let ?bn = "bedMinutesNormalized wm bm"
  let ?iv = "interval s"
  let ?n = "nat ((?bn - wm) div ?iv + 1)"
  let ?ts = "map (\<lambda>k. slot_at (Fin (wm + int k * ?iv))) [0..<?n]"
  have iv: "0 < ?iv" using interval_ge [of s] by simp
  have bed: "bedMinutes u s = Fin ?bn"
    using assms by (simp add: bedMinutes_def bedMinutesNormalized_def)
  have le: "wm \<le> ?bn"
    using assms by (simp add: bedMinutesNormalized_def)
  then have "0 \<le> (?bn - wm) div ?iv"
    using iv by (simp add: pos_imp_zdiv_nonneg_iff)
  then have pos: "0 < ?n"
    by simp
  have w: "walk (wakeMinutes u s) (bedMinutes u s) ?iv [] = Some ?ts"
    using walk_fin [OF iv, of wm ?bn "[]"] assms(1) bed by simp
  have ne: "?ts \<noteq> []" using pos by simp
  have t: "times_arr u s = Some ?ts"
    using w ne by (simp add: times_arr_def)
  have "\<And>k. slot_at (Fin (wm + int k * ?iv)) = minute_slot ((wm + int k * ?iv) mod 1440)"
    using assms(3) iv by (intro slot_at_nonneg) simp
  then have m: "?ts = plan_spec wm bm ?iv"
    by (simp add: plan_spec_def)
  from t m show "times_arr u s = Some (plan_spec wm bm (interval s))" by simp
  from ne m show "plan_spec wm bm (interval s) \<noteq> []" by simp
qed

lemma times_arr_clock:
  assumes "wakeTime_used u s = clock h m" and "h < 24" and "m < 60"
    and "bedTime_used u s = clock h' m'" and "h' < 24" and "m' < 60"
  shows "times_arr u s =
           Some (plan_spec ((if h = 0 then 7 else int h) * 60 + int m)
                           ((if h' = 0 then 23 else int h') * 60 + int m') (interval s))"
proof -
  have w: "wakeMinutes u s = Fin ((if h = 0 then 7 else int h) * 60 + int m)"
    using assms(1,2,3) by (rule wakeMinutes_clock)
  have b: "bedMinutes_raw u s = Fin ((if h' = 0 then 23 else int h') * 60 + int m')"
    using assms(4,5,6) by (rule bedMinutes_raw_clock)
  show ?thesis
    by (rule times_arr_of_minutes(1) [OF w b]) (use assms in auto)
qed

lemma plan_matches_spec:
  assumes "wakeTime_used u s = clock h m" and "0 < h" and "h < 24" and "m < 60"
    and "bedTime_used u s = clock h' m'" and "0 < h'" and "h' < 24" and "m' < 60"
  shows "times_arr u s = Some (plan_spec (int h * 60 + int m) (int h' * 60 + int m') (interval s))"
  using times_arr_clock [OF assms(1,3,4,5,7,8)] assms(2,6) by simp

text \<open>
  C3 says that for every wake time, bed time and interval the plan has
  \<open>floor((bedMinutesNormalized - wakeMinutes) / interval) + 1\<close> slots, the successive
  step values from the wake time modulo 1440. The code breaks this for a wake time in
  the hour after midnight: with wake \<open>00:30\<close>, bed \<open>23:00\<close> and interval 120 the hour
  0 is falsy, \<open>wakeH || 7\<close> replaces it by 7, and the plan is the 8 slots from 07:30 to
  21:30, where the stated walk from minute 30 has the 12 slots from 00:30 to 22:30.
\<close>

theorem midnight_wake_plan:
  "wakeTime_used (profile ''00:30'' ''23:00'') default_settings = clock 0 30
   \<and> wakeMinutes (profile ''00:30'' ''23:00'') default_settings = Fin 450
   \<and> bedMinutes (profile ''00:30'' ''23:00'') default_settings = Fin 1380
   \<and> interval default_settings = 120
   \<and> times_arr (profile ''00:30'' ''23:00'') default_settings
       = Some [hm 7 30, hm 9 30, hm 11 30, hm 13 30, hm 15 30, hm 17 30, hm 19 30, hm 21 30]
   \<and> plan_spec (0 * 60 + 30) (23 * 60 + 0) 120
       = [hm 0 30, hm 2 30, hm 4 30, hm 6 30, hm 8 30, hm 10 30, hm 12 30, hm 14 30,
          hm 16 30, hm 18 30, hm 20 30, hm 22 30]"
  by code_simp

text \<open>
  C4: with wake \<open>22:00\<close>, bed \<open>06:00\<close> and interval 180 the bed time, 360 minutes,
  is normalized to 1800, and the plan is exactly the three slots 22:00, 01:00 and
  04:00 (the step values 1320, 1500 and 1680 modulo 1440). The wake and bed times of
  the profile take precedence, so the other settings are arbitrary.
\<close>

theorem overnight_plan:
  "bedMinutes_raw (profile ''22:00'' ''06:00'')
     \<lparr>wakeTime = sw, bedTime = sb, darkMode = dm, remindersEnabled = en,
      reminderIntervalMins = Some 180\<rparr> = Fin 360
   \<and> bedMinutes (profile ''22:00'' ''06:00'')
     \<lparr>wakeTime = sw, bedTime = sb, darkMode = dm, remindersEnabled = en,
      reminderIntervalMins = Some 180\<rparr> = Fin 1800
   \<and> times_arr (profile ''22:00'' ''06:00'')
     \<lparr>wakeTime = sw, bedTime = sb, darkMode = dm, remindersEnabled = en,
      reminderIntervalMins = Some 180\<rparr>
       = Some [hm 22 0, hm 1 0, hm 4 0]"
  by code_simp









text \<open>
  C6, as stated: the interval is \<open>max(15, reminderIntervalMins ?? 120)\<close>, 120 only for
  \<open>null\<close> and \<open>undefined\<close>. This fails for the setting 0: the code writes \<open>||\<close>, for
  which 0 is falsy, and plans with 120 where the stated formula gives 15.
\<close>

theorem interval_counterexample:
  "reminderIntervalMins (default_settings\<lparr>reminderIntervalMins := Some 0\<rparr>) = Some 0
   \<and> interval (default_settings\<lparr>reminderIntervalMins := Some 0\<rparr>) = 120
   \<and> interval_spec (default_settings\<lparr>reminderIntervalMins := Some 0\<rparr>) = 15"
  by (simp add: interval_def interval_spec_def default_settings_def)

lemma times_arr_cong:
  assumes "interval s = interval s'" and "wakeTime s = wakeTime s'" and "bedTime s = bedTime s'"
  shows "times_arr u s = times_arr u s'"
proof -
  have a: "wakeHM u s = wakeHM u s'"
    using assms by (simp add: wakeHM_def wakeTime_used_def)
  have b: "bedHM u s = bedHM u s'"
    using assms by (simp add: bedHM_def bedTime_used_def)
  have c: "wakeMinutes u s = wakeMinutes u s'"
    using a by (simp add: wakeMinutes_def)
  have d: "bedMinutes u s = bedMinutes u s'"
    using b c by (simp add: bedMinutes_def bedMinutes_raw_def)
  show ?thesis
    unfolding times_arr_def a c d assms(1) ..
qed

text \<open>
  C6, amended: the interval used for planning is \<open>max(15, reminderIntervalMins || 120)\<close>:
  it is \<open>max(15, reminderIntervalMins ?? 120)\<close> for every setting but 0, and 120 for the
  setting 0; it is never below 15, and for every wake and bed pair planning with
  interval 5 gives exactly the slot sequence of planning with interval 15.
\<close>

theorem interval_clamped:
  "(reminderIntervalMins s \<noteq> Some 0 \<longrightarrow> interval s = interval_spec s)
   \<and> (reminderIntervalMins s = Some 0 \<longrightarrow> interval s = 120)
   \<and> 15 \<le> interval s
   \<and> interval (s\<lparr>reminderIntervalMins := Some 5\<rparr>) = 15
   \<and> times_arr u (s\<lparr>reminderIntervalMins := Some 5\<rparr>) = times_arr u (s\<lparr>reminderIntervalMins := Some 15\<rparr>)"
proof -
  have a: "reminderIntervalMins s \<noteq> Some 0 \<longrightarrow> interval s = interval_spec s"
    by (simp add: interval_def interval_spec_def split: option.splits)
  have b: "reminderIntervalMins s = Some 0 \<longrightarrow> interval s = 120"
    by (simp add: interval_def)
  have c: "15 \<le> interval s"
    by (simp add: interval_def)
  have d: "interval (s\<lparr>reminderIntervalMins := Some 5\<rparr>) = 15"
    by (simp add: interval_def)
  have e: "times_arr u (s\<lparr>reminderIntervalMins := Some 5\<rparr>) = times_arr u (s\<lparr>reminderIntervalMins := Some 15\<rparr>)"
    by (rule times_arr_cong) (simp_all add: interval_def)
  from a b c d e show ?thesis by simp
qed

theorem interval_clamped_witness:
  "reminderIntervalMins (default_settings\<lparr>reminderIntervalMins := None\<rparr>) \<noteq> Some 0
   \<and> interval (default_settings\<lparr>reminderIntervalMins := None\<rparr>) = 120
   \<and> interval_spec (default_settings\<lparr>reminderIntervalMins := None\<rparr>) = 120
   \<and> times_arr (profile ''07:00'' ''08:00'') (default_settings\<lparr>reminderIntervalMins := Some 5\<rparr>)
       = Some [hm 7 0, hm 7 15, hm 7 30, hm 7 45, hm 8 0]
   \<and> times_arr (profile ''07:00'' ''08:00'') (default_settings\<lparr>reminderIntervalMins := Some 15\<rparr>)
       = Some [hm 7 0, hm 7 15, hm 7 30, hm 7 45, hm 8 0]"
proof -
  have n: "reminderIntervalMins (default_settings\<lparr>reminderIntervalMins := None\<rparr>) \<noteq> Some 0"
    by simp
  have i: "interval_spec (default_settings\<lparr>reminderIntervalMins := None\<rparr>) = 120"
    by (simp add: interval_spec_def)
  have t: "times_arr (profile ''07:00'' ''08:00'') (default_settings\<lparr>reminderIntervalMins := Some 15\<rparr>)
       = Some [hm 7 0, hm 7 15, hm 7 30, hm 7 45, hm 8 0]"
    by code_simp
  from interval_clamped [of "default_settings\<lparr>reminderIntervalMins := None\<rparr>" "profile ''07:00'' ''08:00''"] n i
  have "interval (default_settings\<lparr>reminderIntervalMins := None\<rparr>) = 120" by simp
  moreover from interval_clamped [of default_settings "profile ''07:00'' ''08:00''"] t
  have "times_arr (profile ''07:00'' ''08:00'') (default_settings\<lparr>reminderIntervalMins := Some 5\<rparr>)
       = Some [hm 7 0, hm 7 15, hm 7 30, hm 7 45, hm 8 0]" by simp
  ultimately show ?thesis using n i t by simp
qed

section \<open>Properties of \<open>scheduleReminders\<close>\<close>

subsection \<open>Exceptions and termination\<close>

text \<open>
  Whatever the collaborators do, a call that returns returns a list, never an
  exception; and the call returns exactly when the planning loop does, which it does
  for all wake and bed times written \<open>HH:MM\<close>.
\<close>

lemma scheduleReminders_no_exception:
  "scheduleReminders P usr sett w = Some (r, w') \<Longrightarrow> \<exists>ids. r = Inr ids"
  by (auto simp: scheduleReminders_def split: option.splits prod.splits sum.splits)

lemma scheduleReminders_try_returns:
  "(scheduleReminders_try P usr sett w = None) =
     (\<exists>u s. usr = Some u \<and> sett = Some s \<and> remindersEnabled s \<and> times_arr u s = None)"
  by (auto simp: scheduleReminders_try_def Let_def split: option.splits prod.splits sum.splits)

lemma scheduleReminders_None:
  "(scheduleReminders P usr sett w = None) = (scheduleReminders_try P usr sett w = None)"
  by (auto simp: scheduleReminders_def split: option.splits prod.splits sum.splits)

lemma scheduleReminders_returns:
  "(scheduleReminders P usr sett w = None) =
     (\<exists>u s. usr = Some u \<and> sett = Some s \<and> remindersEnabled s \<and> times_arr u s = None)"
  by (simp only: scheduleReminders_None scheduleReminders_try_returns)

lemma scheduleReminders_returns_clock:
  assumes "wakeTime_used u s = clock h m" and "h < 24" and "m < 60"
    and "bedTime_used u s = clock h' m'" and "h' < 24" and "m' < 60"
  shows "scheduleReminders P (Some u) (Some s) w \<noteq> None"
  using times_arr_clock [OF assms] by (simp add: scheduleReminders_returns)

text \<open>
  C9 says that \<open>scheduleReminders\<close> returns a list on every input. With the bed time
  \<open>Infinity:00\<close> typed into the profile, \<open>Number\<close> reads the hour as \<open>Infinity\<close>, the
  loop bound \<open>bedMinutes\<close> is \<open>Infinity\<close>, and the planning loop never ends: on every
  platform and in every state of it the call does not return.
\<close>

theorem scheduleReminders_hangs:
  "scheduleReminders P (Some (profile ''07:00'' ''Infinity:00'')) (Some default_settings) w = None"
proof -
  let ?u = "profile ''07:00'' ''Infinity:00''"
  have wk: "wakeMinutes ?u default_settings = Fin 420" by code_simp
  have bd: "bedMinutes ?u default_settings = PInf" by code_simp
  have "walk (Fin 420) PInf (interval default_settings) [] = None"
  proof (cases "walk (Fin 420) PInf (interval default_settings) []")
    case None
    then show ?thesis .
  next
    case (Some r)
    from walk_unbounded [OF Some] show ?thesis by simp
  qed
  with wk bd have "times_arr ?u default_settings = None"
    by (simp add: times_arr_def)
  moreover have "remindersEnabled default_settings"
    by (simp add: default_settings_def)
  ultimately show ?thesis
    by (simp add: scheduleReminders_def scheduleReminders_try_def)
qed

text \<open>
  C1, as stated: when a registration throws after some triggers have been registered,
  the identifiers collected so far are returned. This fails on a platform that
  rejects the second registration: the trigger 0 is registered, and the call returns
  the empty list (and persists nothing), not \<open>[0]\<close>.
\<close>

theorem registration_failure_counterexample:
  "outcome (scheduleReminders (device (limited 1)) (Some (profile ''07:00'' ''23:00''))
      (Some default_settings) fresh_world) = Some (Inr [], [], [0])"
  by code_simp

lemma register_all_append:
  "register_all P (xs @ ys) acc w =
     (case register_all P xs acc w of
        (Inl e, w') \<Rightarrow> (Inl e, w')
      | (Inr ids, w') \<Rightarrow> register_all P ys ids w')"
  by (induction xs arbitrary: acc w) (auto split: prod.splits sum.splits)

text \<open>
  C1, amended: if an exception is thrown during trigger registration, after the
  triggers of zero or more slots \<open>pre\<close> have been registered and their identifiers
  collected, \<open>scheduleReminders\<close> catches it at the top level and returns the empty
  list. The identifiers collected up to that point are discarded: the state of the
  collaborators after the call is their state right after the failing registration,
  so nothing is persisted and nothing is rolled back.
\<close>

theorem registration_failure_returns_empty:
  assumes "remindersEnabled s" and "times_arr u s = Some (pre @ tm # rest)"
    and "registerForPushNotificationsAsync P (cancelScheduledNotificationsAndClearStorage P w)
           = (Inr True, w2)"
    and "register_all P pre [] w2 = (Inr createdIds, w3)"
    and "scheduleNotificationAsync P tm w3 = (Inl e, w4)"
  shows "scheduleReminders P (Some u) (Some s) w = Some (Inr [], w4)"
proof -
  have "register_all P (pre @ tm # rest) [] w2 = (Inl e, w4)"
    using assms(4,5) by (simp add: register_all_append)
  with assms(1,2,3) show ?thesis
    by (simp add: scheduleReminders_def scheduleReminders_try_def)
qed

theorem registration_failure_returns_empty_witness:
  "remindersEnabled default_settings
   \<and> times_arr (profile ''07:00'' ''09:00'') default_settings = Some ([hm 7 0] @ hm 9 0 # [])
   \<and> (\<exists>w3 w4. register_all (device (limited 1)) [hm 7 0] []
               (snd (registerForPushNotificationsAsync (device (limited 1))
                  (cancelScheduledNotificationsAndClearStorage (device (limited 1)) fresh_world)))
             = (Inr [0], w3)
           \<and> scheduleNotificationAsync (device (limited 1)) (hm 9 0) w3 = (Inl NotificationError, w4)
           \<and> registered w4 = [0] \<and> persisted w4 = []
           \<and> scheduleReminders (device (limited 1)) (Some (profile ''07:00'' ''09:00''))
               (Some default_settings) fresh_world = Some (Inr [], w4))"
proof -
  let ?P = "device (limited 1)"
  let ?w1 = "cancelScheduledNotificationsAndClearStorage ?P fresh_world"
  let ?w2 = "snd (registerForPushNotificationsAsync ?P ?w1)"
  let ?w3 = "snd (register_all ?P [hm 7 0] [] ?w2)"
  let ?w4 = "snd (scheduleNotificationAsync ?P (hm 9 0) ?w3)"
  have a: "remindersEnabled default_settings"
    by (simp add: default_settings_def)
  have b: "times_arr (profile ''07:00'' ''09:00'') default_settings = Some ([hm 7 0] @ hm 9 0 # [])"
    by code_simp
  have "fst (registerForPushNotificationsAsync ?P ?w1) = Inr True"
    by code_simp
  then have c: "registerForPushNotificationsAsync ?P ?w1 = (Inr True, ?w2)"
    by (simp add: prod_eq_iff)
  have "fst (register_all ?P [hm 7 0] [] ?w2) = Inr [0]"
    by code_simp
  then have d: "register_all ?P [hm 7 0] [] ?w2 = (Inr [0], ?w3)"
    by (simp add: prod_eq_iff)
  have "fst (scheduleNotificationAsync ?P (hm 9 0) ?w3) = Inl NotificationError"
    by code_simp
  then have e: "scheduleNotificationAsync ?P (hm 9 0) ?w3 = (Inl NotificationError, ?w4)"
    by (simp add: prod_eq_iff)
  have g: "registered ?w4 = [0]" and h: "persisted ?w4 = []"
    by code_simp+
  from registration_failure_returns_empty [OF a b c d e] a b d e g h show ?thesis
    by blast
qed

subsection \<open>On the reference device\<close>














section \<open>Properties of the intake ledger\<close>

lemma addIntake_Nil: "addIntake (Some u) t a [] = [\<lparr>date = t, intake = a\<rparr>]"
  by (simp add: addIntake_def)

lemma addIntake_Cons:
  "addIntake (Some u) t a (r # rs) =
     (if date r = t then r\<lparr>intake := intake r + a\<rparr> # rs else r # addIntake (Some u) t a rs)"
  by (simp add: addIntake_def split: option.splits)

lemma addIntake_other_dates:
  "filter (\<lambda>r. date r \<noteq> t) (addIntake (Some u) t a xs) = filter (\<lambda>r. date r \<noteq> t) xs"
  by (induction xs) (simp_all add: addIntake_Nil addIntake_Cons)

lemma records_for_absent: "t \<notin> date ` set xs \<Longrightarrow> records_for t xs = []"
  by (induction xs) (auto simp: records_for_def)

lemma addIntake_today:
  "distinct (map date xs) \<Longrightarrow>
   records_for t (addIntake (Some u) t a xs) = [\<lparr>date = t, intake = prior_intake t xs + a\<rparr>]"
proof (induction xs)
  case Nil
  show ?case by (simp add: addIntake_Nil records_for_def prior_intake_def)
next
  case (Cons r rs)
  show ?case
  proof (cases "date r = t")
    case True
    with Cons.prems have "t \<notin> date ` set rs" by auto
    then have "records_for t rs = []" by (rule records_for_absent)
    with True show ?thesis
      by (simp add: addIntake_Cons records_for_def prior_intake_def)
  next
    case False
    with Cons show ?thesis
      by (simp add: addIntake_Cons records_for_def prior_intake_def)
  qed
qed

lemma addIntake_dates:
  "map date (addIntake (Some u) t a xs) =
     (if t \<in> date ` set xs then map date xs else map date xs @ [t])"
  by (induction xs) (auto simp: addIntake_Nil addIntake_Cons)

lemma addIntake_distinct:
  "distinct (map date xs) \<Longrightarrow> distinct (map date (addIntake (Some u) t a xs))"
  by (simp add: addIntake_dates)

text \<open>
  C8, as stated: on every log with at most one record per date, \<open>addIntake(250)\<close> then
  \<open>addIntake(300)\<close> leave one record for today with intake 550. This fails on a log
  that already holds a record for today: the two amounts are added to the 100 ml
  logged before, and the record reads 650.
\<close>

theorem addIntake_twice_counterexample:
  "distinct (map date [\<lparr>date = ''2024-05-01'', intake = 100\<rparr>])
   \<and> records_for ''2024-05-01''
        (addIntake (Some (profile ''07:00'' ''23:00'')) ''2024-05-01'' 300
          (addIntake (Some (profile ''07:00'' ''23:00'')) ''2024-05-01'' 250
            [\<lparr>date = ''2024-05-01'', intake = 100\<rparr>]))
       = [\<lparr>date = ''2024-05-01'', intake = 650\<rparr>]
   \<and> records_for ''2024-05-01''
        (addIntake (Some (profile ''07:00'' ''23:00'')) ''2024-05-01'' 300
          (addIntake (Some (profile ''07:00'' ''23:00'')) ''2024-05-01'' 250
            [\<lparr>date = ''2024-05-01'', intake = 100\<rparr>]))
       \<noteq> [\<lparr>date = ''2024-05-01'', intake = 550\<rparr>]"
  by (simp add: addIntake_Cons records_for_def)

text \<open>
  C8, amended: on every log with at most one record per date, with a profile present
  and with the intake \<open>p\<close> already logged for today (0 when there is no record) an
  integer with \<open>|p| + 550 \<le> 2^53\<close>, so that the additions of the code are exact:
  \<open>addIntake(250)\<close> and then, called after the provider has rendered again with the
  log the first call has set, \<open>addIntake(300)\<close> on the same day leave exactly one record
  for today, whose intake is \<open>p + 550\<close>. A following \<open>resetToday()\<close>, again after the
  next render, leaves no record for today, and the records of the other dates are
  those of the original log, in their order.
\<close>

theorem addIntake_twice_then_reset:
  assumes "distinct (map date intakeLog)"
    and "\<bar>prior_intake today intakeLog\<bar> + 550 \<le> 2 ^ 53"
  shows "records_for today (addIntake (Some u) today 300 (addIntake (Some u) today 250 intakeLog))
           = [\<lparr>date = today, intake = prior_intake today intakeLog + 550\<rparr>]
       \<and> records_for today
           (resetToday today (addIntake (Some u) today 300 (addIntake (Some u) today 250 intakeLog)))
           = []
       \<and> resetToday today (addIntake (Some u) today 300 (addIntake (Some u) today 250 intakeLog))
           = filter (\<lambda>r. date r \<noteq> today) intakeLog"
proof -
  let ?l1 = "addIntake (Some u) today 250 intakeLog"
  have d1: "distinct (map date ?l1)"
    using assms(1) by (rule addIntake_distinct)
  have p1: "prior_intake today ?l1 = prior_intake today intakeLog + 250"
    using addIntake_today [OF assms(1), of today u 250] by (simp add: prior_intake_def)
  have a: "records_for today (addIntake (Some u) today 300 ?l1)
             = [\<lparr>date = today, intake = prior_intake today intakeLog + 550\<rparr>]"
    using addIntake_today [OF d1, of today u 300] p1 by simp
  have b: "resetToday today (addIntake (Some u) today 300 ?l1)
             = filter (\<lambda>r. date r \<noteq> today) intakeLog"
    by (simp add: resetToday_def addIntake_other_dates)
  have c: "records_for today (resetToday today (addIntake (Some u) today 300 ?l1)) = []"
    by (simp add: resetToday_def records_for_def)
  from a b c show ?thesis by simp
qed

theorem addIntake_twice_then_reset_witness:
  "distinct (map date [\<lparr>date = ''2024-04-30'', intake = 1800\<rparr>, \<lparr>date = ''2024-05-01'', intake = 100\<rparr>])
   \<and> \<bar>prior_intake ''2024-05-01''
        [\<lparr>date = ''2024-04-30'', intake = 1800\<rparr>, \<lparr>date = ''2024-05-01'', intake = 100\<rparr>]\<bar> + 550
       \<le> 2 ^ 53
   \<and> records_for ''2024-05-01''
        (addIntake (Some (profile ''07:00'' ''23:00'')) ''2024-05-01'' 300
          (addIntake (Some (profile ''07:00'' ''23:00'')) ''2024-05-01'' 250
            [\<lparr>date = ''2024-04-30'', intake = 1800\<rparr>, \<lparr>date = ''2024-05-01'', intake = 100\<rparr>]))
       = [\<lparr>date = ''2024-05-01'', intake = 650\<rparr>]
   \<and> resetToday ''2024-05-01''
        (addIntake (Some (profile ''07:00'' ''23:00'')) ''2024-05-01'' 300
          (addIntake (Some (profile ''07:00'' ''23:00'')) ''2024-05-01'' 250
            [\<lparr>date = ''2024-04-30'', intake = 1800\<rparr>, \<lparr>date = ''2024-05-01'', intake = 100\<rparr>]))
       = [\<lparr>date = ''2024-04-30'', intake = 1800\<rparr>]"
proof -
  let ?log = "[\<lparr>date = ''2024-04-30'', intake = 1800\<rparr>, \<lparr>date = ''2024-05-01'', intake = 100\<rparr>]"
  have d: "distinct (map date ?log)"
    by simp
  have p: "prior_intake ''2024-05-01'' ?log = 100"
    by (simp add: prior_intake_def records_for_def)
  then have b: "\<bar>prior_intake ''2024-05-01'' ?log\<bar> + 550 \<le> 2 ^ 53"
    by simp
  from addIntake_twice_then_reset [OF d b, of "profile ''07:00'' ''23:00''"] p d b
  show ?thesis
    by simp
qed

text \<open>
  C10: without a user profile \<open>addIntake\<close> returns at once; the log is left as it is,
  whatever the amount.
\<close>

theorem addIntake_without_user: "addIntake None today amount intakeLog = intakeLog"
  by (simp add: addIntake_def)

end
